theory Spec2Isabelle
  imports Main "HOL-Library.Word" "HOL-Library.Finite_Map" "HOL-Library.Sublist"
begin

section \<open>Go values and run-time panics\<close>

text \<open>
  The file under study is
  \<^verbatim>\<open>azurerm/internal/services/compute/virtual_machine_scale_set.go\<close>.
  Its functions map between configuration trees (\<^verbatim>\<open>[]interface{}\<close> holding
  \<^verbatim>\<open>map[string]interface{}\<close>) and typed request objects of the compute SDK.

  Go's \<^verbatim>\<open>int\<close> is taken at 64 bits and \<^verbatim>\<open>int32\<close> at 32 bits; the conversion
  \<^verbatim>\<open>int32(x)\<close> keeps the low 32 bits and \<^verbatim>\<open>int(y)\<close> sign-extends.
\<close>

type_synonym go_int = "64 word"
type_synonym int32 = "32 word"

text \<open>
  A value of type \<^verbatim>\<open>interface{}\<close> as it occurs in a configuration tree. \<open>CNil\<close> is
  the nil interface, which is what indexing a map at a missing key yields.
\<close>

datatype cfg =
    CNil
  | CBool bool
  | CInt go_int
  | CStr string
  | CList "cfg list"
  | CMap "(string, cfg) fmap"

text \<open>
  The run-time panics the file can raise: \<^verbatim>\<open>input[0]\<close> on an empty slice, a failed
  single-value type assertion \<^verbatim>\<open>x.(T)\<close>, and \<^verbatim>\<open>*p\<close> on a nil pointer.
\<close>

datatype panic = IndexOutOfRange | InterfaceConversion | NilDereference

definition pbind :: "panic + 'a \<Rightarrow> ('a \<Rightarrow> panic + 'b) \<Rightarrow> panic + 'b" where
  "pbind m f = (case m of Inl p \<Rightarrow> Inl p | Inr x \<Rightarrow> f x)"

text \<open>\<^verbatim>\<open>xs[0]\<close>\<close>

definition index0 :: "cfg list \<Rightarrow> panic + cfg" where
  "index0 xs = (case xs of [] \<Rightarrow> Inl IndexOutOfRange | x # _ \<Rightarrow> Inr x)"

text \<open>\<^verbatim>\<open>raw[key]\<close> on a \<^verbatim>\<open>map[string]interface{}\<close>\<close>

definition map_index :: "(string, cfg) fmap \<Rightarrow> string \<Rightarrow> cfg" where
  "map_index raw key = (case fmlookup raw key of None \<Rightarrow> CNil | Some v \<Rightarrow> v)"

text \<open>The type assertions \<^verbatim>\<open>x.(map[string]interface{})\<close>, \<^verbatim>\<open>x.(string)\<close>,
  \<^verbatim>\<open>x.(bool)\<close>, \<^verbatim>\<open>x.(int)\<close> and \<^verbatim>\<open>x.([]interface{})\<close>.\<close>

definition as_map :: "cfg \<Rightarrow> panic + (string, cfg) fmap" where
  "as_map x = (case x of CMap m \<Rightarrow> Inr m | _ \<Rightarrow> Inl InterfaceConversion)"

definition as_string :: "cfg \<Rightarrow> panic + string" where
  "as_string x = (case x of CStr s \<Rightarrow> Inr s | _ \<Rightarrow> Inl InterfaceConversion)"

definition as_bool :: "cfg \<Rightarrow> panic + bool" where
  "as_bool x = (case x of CBool b \<Rightarrow> Inr b | _ \<Rightarrow> Inl InterfaceConversion)"

definition as_int :: "cfg \<Rightarrow> panic + go_int" where
  "as_int x = (case x of CInt n \<Rightarrow> Inr n | _ \<Rightarrow> Inl InterfaceConversion)"

definition as_list :: "cfg \<Rightarrow> panic + cfg list" where
  "as_list x = (case x of CList xs \<Rightarrow> Inr xs | _ \<Rightarrow> Inl InterfaceConversion)"

text \<open>The conversions \<^verbatim>\<open>int32(x)\<close> and \<^verbatim>\<open>int(y)\<close>.\<close>

definition to_int32 :: "go_int \<Rightarrow> int32" where
  "to_int32 x = ucast x"

definition to_int :: "int32 \<Rightarrow> go_int" where
  "to_int y = scast y"

text \<open>
  An \<^verbatim>\<open>error\<close> built by \<^verbatim>\<open>fmt.Errorf\<close>: the format literal and its arguments, kept
  unrendered.
\<close>

datatype error = Errorf string "fmt_arg list"
  and fmt_arg = ArgString string | ArgError error

section \<open>Types of the compute SDK and of the azure helpers\<close>

text \<open>
  Only the fields this file reads or writes are kept. A pointer field is an \<open>option\<close>
  (\<open>None\<close> is nil); the string-typed enumerations of the SDK are strings.
\<close>

record AdditionalCapabilities =
  UltraSSDEnabled :: "bool option"

record VirtualMachineScaleSetManagedDiskParameters =
  StorageAccountType :: string

record DiffDiskSettings =
  Option :: string

record VirtualMachineScaleSetOSDisk =
  Caching :: string
  ManagedDisk :: "VirtualMachineScaleSetManagedDiskParameters option"
  WriteAcceleratorEnabled :: "bool option"
  CreateOption :: string
  OsType :: string
  DiskSizeGB :: "int32 option"
  DiffDiskSettings :: "DiffDiskSettings option"

record ImageReference =
  ID :: "string option"
  Publisher :: "string option"
  Offer :: "string option"
  Sku :: "string option"
  Version :: "string option"

record AutomaticOSUpgradePolicy =
  DisableAutomaticRollback :: "bool option"
  EnableAutomaticOSUpgrade :: "bool option"

record RollingUpgradePolicy =
  MaxBatchInstancePercent :: "int32 option"
  MaxUnhealthyInstancePercent :: "int32 option"
  MaxUnhealthyUpgradedInstancePercent :: "int32 option"
  PauseTimeBetweenBatches :: "string option"

record UpgradePolicy =
  Mode :: string
  AutomaticOSUpgradePolicy :: "AutomaticOSUpgradePolicy option"
  RollingUpgradePolicy :: "RollingUpgradePolicy option"

text \<open>
  Modelled from the spec: the constants of the compute SDK are declared outside this
  file. The spec gives the wire literals of the upgrade modes
  (\<^verbatim>\<open>Automatic\<close>/\<^verbatim>\<open>Manual\<close>/\<^verbatim>\<open>Rolling\<close>), of the caching types
  (\<^verbatim>\<open>None\<close>/\<^verbatim>\<open>ReadOnly\<close>/\<^verbatim>\<open>ReadWrite\<close>) and of the diff-disk option (\<^verbatim>\<open>Local\<close>).
  It names the three storage account types and the ``from image'' create option without
  their literals; they are written here as the SDK spells them, and nothing below
  depends on that spelling.
\<close>

definition Automatic :: string where "Automatic = ''Automatic''"
definition Manual :: string where "Manual = ''Manual''"
definition Rolling :: string where "Rolling = ''Rolling''"

definition CachingTypesNone :: string where "CachingTypesNone = ''None''"
definition CachingTypesReadOnly :: string where "CachingTypesReadOnly = ''ReadOnly''"
definition CachingTypesReadWrite :: string where "CachingTypesReadWrite = ''ReadWrite''"

definition StorageAccountTypesPremiumLRS :: string where
  "StorageAccountTypesPremiumLRS = ''Premium_LRS''"
definition StorageAccountTypesStandardLRS :: string where
  "StorageAccountTypesStandardLRS = ''Standard_LRS''"
definition StorageAccountTypesStandardSSDLRS :: string where
  "StorageAccountTypesStandardSSDLRS = ''StandardSSD_LRS''"

definition Local :: string where "Local = ''Local''"

definition DiskCreateOptionTypesFromImage :: string where
  "DiskCreateOptionTypesFromImage = ''FromImage''"

text \<open>
  \<^verbatim>\<open>azure.ResourceID\<close> is declared in the azure helper package; this file reads its
  \<^verbatim>\<open>Path\<close> map only. The record is used through its extensible scheme, so whatever
  further fields the helper fills in are carried along unchanged.
\<close>

record ResourceID =
  Path :: "(string, string) fmap"

record 'z VirtualMachineScaleSetResourceID =
  Base :: "'z ResourceID_scheme"
  Name :: string

text \<open>\<^verbatim>\<open>m[key]\<close> on a \<^verbatim>\<open>map[string]string\<close>: the empty string at a missing key.\<close>

definition path_index :: "(string, string) fmap \<Rightarrow> string \<Rightarrow> string" where
  "path_index m key = (case fmlookup m key of None \<Rightarrow> [] | Some v \<Rightarrow> v)"

section \<open>Resource identifier\<close>

text \<open>
  \<^verbatim>\<open>azure.ParseAzureResourceID\<close> lives outside this file; it is a parameter here. It
  returns the Go pair \<^verbatim>\<open>(*ResourceID, error)\<close>.
\<close>

definition ParseVirtualMachineScaleSetResourceID ::
  "(string \<Rightarrow> 'z ResourceID_scheme option \<times> error option) \<Rightarrow> string \<Rightarrow>
     panic + ('z VirtualMachineScaleSetResourceID option \<times> error option)" where
  "ParseVirtualMachineScaleSetResourceID ParseAzureResourceID input =
     (case ParseAzureResourceID input of
        (_, Some err) \<Rightarrow>
          Inr (None, Some (Errorf ''[ERROR] Unable to parse Virtual Machine Scale Set ID %q: %+v''
                             [ArgString input, ArgError err]))
      | (None, None) \<Rightarrow> Inl NilDereference
      | (Some rid, None) \<Rightarrow>
          (let networkSecurityGroup =
                 \<lparr>Base = rid, Name = path_index (Path rid) ''virtualMachineScaleSets''\<rparr>
           in if Name networkSecurityGroup = []
              then Inr (None, Some (Errorf ''ID was missing the `virtualMachineScaleSets` element'' []))
              else Inr (Some networkSecurityGroup, None)))"

section \<open>Additional capabilities\<close>

definition ExpandVirtualMachineScaleSetAdditionalCapabilities ::
  "cfg list \<Rightarrow> panic + AdditionalCapabilities option" where
  "ExpandVirtualMachineScaleSetAdditionalCapabilities input =
     (let capabilities = \<lparr>UltraSSDEnabled = None\<rparr>
      in if length input > 0
         then pbind (index0 input) (\<lambda>x.
              pbind (as_map x) (\<lambda>raw.
              pbind (as_bool (map_index raw ''ultra_ssd_enabled'')) (\<lambda>b.
              Inr (Some (capabilities\<lparr>UltraSSDEnabled := Some b\<rparr>)))))
         else Inr (Some capabilities))"

definition FlattenVirtualMachineScaleSetAdditionalCapabilities ::
  "AdditionalCapabilities option \<Rightarrow> cfg list" where
  "FlattenVirtualMachineScaleSetAdditionalCapabilities input =
     (case input of
        None \<Rightarrow> []
      | Some inp \<Rightarrow>
          (let ultraSsdEnabled = (case UltraSSDEnabled inp of None \<Rightarrow> False | Some b \<Rightarrow> b)
           in [CMap (fmap_of_list [(''ultra_ssd_enabled'', CBool ultraSsdEnabled)])]))"

section \<open>OS disk\<close>

definition ExpandVirtualMachineScaleSetOSDisk ::
  "cfg list \<Rightarrow> string \<Rightarrow> panic + VirtualMachineScaleSetOSDisk option" where
  "ExpandVirtualMachineScaleSetOSDisk input osType =
     pbind (index0 input) (\<lambda>x.
     pbind (as_map x) (\<lambda>raw.
     pbind (as_string (map_index raw ''caching'')) (\<lambda>caching.
     pbind (as_string (map_index raw ''storage_account_type'')) (\<lambda>storageAccountType.
     pbind (as_bool (map_index raw ''write_accelerator_enabled'')) (\<lambda>writeAccelerator.
     let disk = \<lparr>Caching = caching,
                 ManagedDisk = Some \<lparr>StorageAccountType = storageAccountType\<rparr>,
                 WriteAcceleratorEnabled = Some writeAccelerator,
                 CreateOption = DiskCreateOptionTypesFromImage,
                 OsType = osType,
                 DiskSizeGB = None,
                 DiffDiskSettings = None\<rparr>
     in
     pbind (as_int (map_index raw ''disk_size_gb'')) (\<lambda>osDiskSize.
     let disk = (if sint osDiskSize > 0
                 then disk\<lparr>DiskSizeGB := Some (to_int32 osDiskSize)\<rparr> else disk)
     in
     pbind (as_list (map_index raw ''diff_disk_settings'')) (\<lambda>diffDiskSettingsRaw.
     if length diffDiskSettingsRaw > 0
     then pbind (index0 diffDiskSettingsRaw) (\<lambda>d.
          pbind (as_map d) (\<lambda>diffDiskRaw.
          pbind (as_string (map_index diffDiskRaw ''option'')) (\<lambda>opt.
          Inr (Some (disk\<lparr>DiffDiskSettings := Some \<lparr>Option = opt\<rparr>\<rparr>)))))
     else Inr (Some disk))))))))"

definition FlattenVirtualMachineScaleSetOSDisk ::
  "VirtualMachineScaleSetOSDisk option \<Rightarrow> cfg list" where
  "FlattenVirtualMachineScaleSetOSDisk input =
     (case input of
        None \<Rightarrow> []
      | Some inp \<Rightarrow>
          (let diffDataSettings =
                 (case DiffDiskSettings inp of
                    None \<Rightarrow> []
                  | Some s \<Rightarrow> [CMap (fmap_of_list [(''option'', CStr (Option s))])]);
               diskSizeGb =
                 (case DiskSizeGB inp of
                    None \<Rightarrow> 0
                  | Some n \<Rightarrow> if n \<noteq> 0 then to_int n else 0);
               storageAccountType =
                 (case ManagedDisk inp of None \<Rightarrow> [] | Some m \<Rightarrow> StorageAccountType m);
               writeAcceleratorEnabled =
                 (case WriteAcceleratorEnabled inp of None \<Rightarrow> False | Some b \<Rightarrow> b)
           in [CMap (fmap_of_list
                 [(''caching'', CStr (Caching inp)),
                  (''disk_size_gb'', CInt diskSizeGb),
                  (''diff_data_settings'', CList diffDataSettings),
                  (''storage_account_type'', CStr storageAccountType),
                  (''write_accelerator_enabled'', CBool writeAcceleratorEnabled)])]))"

section \<open>Source image reference\<close>

definition ExpandVirtualMachineScaleSetSourceImageReference ::
  "cfg list \<Rightarrow> panic + ImageReference option" where
  "ExpandVirtualMachineScaleSetSourceImageReference input =
     (if length input = 0 then Inr None
      else pbind (index0 input) (\<lambda>x.
           pbind (as_map x) (\<lambda>raw.
           pbind (as_string (map_index raw ''publisher'')) (\<lambda>publisher.
           pbind (as_string (map_index raw ''offer'')) (\<lambda>offer.
           pbind (as_string (map_index raw ''sku'')) (\<lambda>sku.
           pbind (as_string (map_index raw ''version'')) (\<lambda>version.
           Inr (Some \<lparr>ID = None, Publisher = Some publisher, Offer = Some offer,
                       Sku = Some sku, Version = Some version\<rparr>))))))))"

definition FlattenVirtualMachineScaleSetSourceImageReference ::
  "ImageReference option \<Rightarrow> cfg list" where
  "FlattenVirtualMachineScaleSetSourceImageReference input =
     (case input of
        None \<Rightarrow> []
      | Some inp \<Rightarrow>
          if ID inp \<noteq> None then []
          else
            (let publisher = (case Publisher inp of None \<Rightarrow> [] | Some s \<Rightarrow> s);
                 offer = (case Offer inp of None \<Rightarrow> [] | Some s \<Rightarrow> s);
                 sku = (case Sku inp of None \<Rightarrow> [] | Some s \<Rightarrow> s);
                 version = (case Version inp of None \<Rightarrow> [] | Some s \<Rightarrow> s)
             in [CMap (fmap_of_list
                   [(''publisher'', CStr publisher),
                    (''offer'', CStr offer),
                    (''sku'', CStr sku),
                    (''version'', CStr version)])]))"

section \<open>Upgrade policy\<close>

text \<open>The result is the Go pair \<^verbatim>\<open>(*compute.UpgradePolicy, error)\<close>.\<close>

definition ExpandVirtualMachineScaleSetUpgradePolicy ::
  "cfg list \<Rightarrow> panic + (UpgradePolicy option \<times> error option)" where
  "ExpandVirtualMachineScaleSetUpgradePolicy input =
     pbind (index0 input) (\<lambda>x.
     pbind (as_map x) (\<lambda>raw.
     pbind (as_list (map_index raw ''automatic_os_upgrade_policy'')) (\<lambda>automaticPoliciesRaw.
     pbind (as_list (map_index raw ''rolling_upgrade_policy'')) (\<lambda>rollingPoliciesRaw.
     pbind (as_string (map_index raw ''mode'')) (\<lambda>mode.
     let policy = \<lparr>Mode = mode, AutomaticOSUpgradePolicy = None, RollingUpgradePolicy = None\<rparr>
     in
     if length automaticPoliciesRaw > 0 \<and> Mode policy \<noteq> Automatic
     then Inr (None, Some (Errorf
       ''A `automatic_os_upgrade_policy` block cannot be specified when `mode` is not set to `Automatic`'' []))
     else
     pbind (if length automaticPoliciesRaw > 0
            then pbind (index0 automaticPoliciesRaw) (\<lambda>a.
                 pbind (as_map a) (\<lambda>automaticRaw.
                 pbind (as_bool (map_index automaticRaw ''disable_automatic_rollback'')) (\<lambda>disable.
                 pbind (as_bool (map_index automaticRaw ''enable_automatic_os_upgrade'')) (\<lambda>enable.
                 Inr (policy\<lparr>AutomaticOSUpgradePolicy :=
                        Some \<lparr>DisableAutomaticRollback = Some disable,
                              EnableAutomaticOSUpgrade = Some enable\<rparr>\<rparr>)))))
            else Inr policy) (\<lambda>policy.
     if length rollingPoliciesRaw > 0 \<and> Mode policy \<noteq> Rolling
     then Inr (None, Some (Errorf
       ''A `rolling_upgrade_policy` block cannot be specified when `mode` is not set to `Rolling`'' []))
     else
     pbind (if length rollingPoliciesRaw > 0
            then pbind (index0 rollingPoliciesRaw) (\<lambda>r.
                 pbind (as_map r) (\<lambda>rollingRaw.
                 pbind (as_int (map_index rollingRaw ''max_batch_instance_percent'')) (\<lambda>maxBatch.
                 pbind (as_int (map_index rollingRaw ''max_unhealthy_instance_percent'')) (\<lambda>maxUnhealthy.
                 pbind (as_int (map_index rollingRaw ''max_unhealthy_upgraded_instance_percent'')) (\<lambda>maxUpgraded.
                 pbind (as_string (map_index rollingRaw ''pause_time_between_batches'')) (\<lambda>pause.
                 Inr (policy\<lparr>RollingUpgradePolicy :=
                        Some \<lparr>MaxBatchInstancePercent = Some (to_int32 maxBatch),
                              MaxUnhealthyInstancePercent = Some (to_int32 maxUnhealthy),
                              MaxUnhealthyUpgradedInstancePercent = Some (to_int32 maxUpgraded),
                              PauseTimeBetweenBatches = Some pause\<rparr>\<rparr>)))))))
            else Inr policy) (\<lambda>policy.
     if Mode policy = Automatic \<and> AutomaticOSUpgradePolicy policy = None
     then Inr (None, Some (Errorf
       ''A `automatic_os_upgrade_policy` block must be specified when `mode` is set to `Automatic`'' []))
     else
     if Mode policy = Rolling \<and> RollingUpgradePolicy policy = None
     then Inr (None, Some (Errorf
       ''A `rolling_upgrade_policy` block must be specified when `mode` is set to `Rolling`'' []))
     else Inr (Some policy, None))))))))"

definition FlattenVirtualMachineScaleSetUpgradePolicy :: "UpgradePolicy option \<Rightarrow> cfg list" where
  "FlattenVirtualMachineScaleSetUpgradePolicy input =
     (case input of
        None \<Rightarrow> []
      | Some inp \<Rightarrow>
          (let automaticOutput =
                 (case AutomaticOSUpgradePolicy inp of
                    None \<Rightarrow> []
                  | Some policy \<Rightarrow>
                      (let disableAutomaticRollback =
                             (case DisableAutomaticRollback policy of None \<Rightarrow> False | Some b \<Rightarrow> b);
                           enableAutomaticOSUpgrade =
                             (case EnableAutomaticOSUpgrade policy of None \<Rightarrow> False | Some b \<Rightarrow> b)
                       in [CMap (fmap_of_list
                             [(''disable_automatic_rollback'', CBool disableAutomaticRollback),
                              (''enable_automatic_os_upgrade'', CBool enableAutomaticOSUpgrade)])]));
               rollingOutput =
                 (case RollingUpgradePolicy inp of
                    None \<Rightarrow> []
                  | Some policy \<Rightarrow>
                      (let maxBatchInstancePercent =
                             (case MaxBatchInstancePercent policy of None \<Rightarrow> 0 | Some n \<Rightarrow> to_int n);
                           maxUnhealthyInstancePercent =
                             (case MaxUnhealthyInstancePercent policy of None \<Rightarrow> 0 | Some n \<Rightarrow> to_int n);
                           maxUnhealthyUpgradedInstancePercent =
                             (case MaxUnhealthyUpgradedInstancePercent policy of
                                None \<Rightarrow> 0 | Some n \<Rightarrow> to_int n);
                           pauseTimeBetweenBatches =
                             (case PauseTimeBetweenBatches policy of None \<Rightarrow> [] | Some s \<Rightarrow> s)
                       in [CMap (fmap_of_list
                             [(''max_batch_instance_percent'', CInt maxBatchInstancePercent),
                              (''max_unhealthy_instance_percent'', CInt maxUnhealthyInstancePercent),
                              (''max_unhealthy_upgraded_instance_percent'',
                                 CInt maxUnhealthyUpgradedInstancePercent),
                              (''pause_time_between_batches'', CStr pauseTimeBetweenBatches)])]))
           in [CMap (fmap_of_list
                 [(''mode'', CStr (Mode inp)),
                  (''automatic_os_upgrade_policy'', CList automaticOutput),
                  (''rolling_upgrade_policy'', CList rollingOutput)])]))"

section \<open>Schema declarations\<close>

text \<open>
  A \<^verbatim>\<open>schema.Schema\<close> literal, with the fields this file sets. A field the literal
  leaves out has Go's zero value (\<open>False\<close>, \<open>0\<close>, \<open>[]\<close>, \<open>None\<close>).
  \<open>Elem\<close> holds the \<^verbatim>\<open>Schema\<close> map of the nested \<^verbatim>\<open>schema.Resource\<close>.
\<close>

datatype value_type = TypeBool | TypeInt | TypeString | TypeList

datatype schema =
  Schema (Type: value_type) (Required: bool) (Optional: bool) (MaxItems: nat)
         (Elem: "(string \<times> schema) list") (ValidateFunc: "(cfg \<Rightarrow> bool) option")
         (Default: "cfg option")

text \<open>
  Modelled from the spec: the validators \<^verbatim>\<open>validation.StringInSlice\<close> and
  \<^verbatim>\<open>validation.IntBetween\<close> belong to the plugin framework and are not part of this
  file. The spec describes them as an allowed-value set (an enum restricted to the
  listed values) and as an inclusive integer range (``integer 0-1023 inclusive'').
  The second argument of \<^verbatim>\<open>StringInSlice\<close> (ignore case) is \<^verbatim>\<open>false\<close> at every call
  in this file and is left out.
\<close>

definition StringInSlice :: "string list \<Rightarrow> cfg \<Rightarrow> bool" where
  "StringInSlice valid v = (case v of CStr s \<Rightarrow> s \<in> set valid | _ \<Rightarrow> False)"

definition IntBetween :: "int \<Rightarrow> int \<Rightarrow> cfg \<Rightarrow> bool" where
  "IntBetween lo hi v = (case v of CInt n \<Rightarrow> lo \<le> sint n \<and> sint n \<le> hi | _ \<Rightarrow> False)"

text \<open>
  Modelled from the spec: the framework's schema validation, which is not part of this
  file. A Configuration Node ``represents one schema-validated block of user input'':
  a scalar has the declared type and passes the declared validator; a list block has at
  least one element when required and at most \<open>MaxItems\<close> elements when that is set; each
  element is a map whose keys are exactly the declared options, each conforming to its
  own schema (an optional option the user left out is present with its default or zero
  value).
\<close>

fun conforms :: "schema \<Rightarrow> cfg \<Rightarrow> bool" where
  "conforms (Schema ty req opt mx elem vf dflt) v =
     (case ty of
        TypeBool \<Rightarrow> (case v of CBool _ \<Rightarrow> True | _ \<Rightarrow> False)
      | TypeInt \<Rightarrow>
          (case v of CInt _ \<Rightarrow> (case vf of None \<Rightarrow> True | Some f \<Rightarrow> f v) | _ \<Rightarrow> False)
      | TypeString \<Rightarrow>
          (case v of CStr _ \<Rightarrow> (case vf of None \<Rightarrow> True | Some f \<Rightarrow> f v) | _ \<Rightarrow> False)
      | TypeList \<Rightarrow>
          (case v of
             CList xs \<Rightarrow>
               (req \<longrightarrow> xs \<noteq> []) \<and> (0 < mx \<longrightarrow> length xs \<le> mx) \<and>
               (\<forall>x \<in> set xs.
                  case x of
                    CMap m \<Rightarrow>
                      fmdom' m \<subseteq> fst ` set elem \<and>
                      (\<forall>(k, s) \<in> set elem.
                         case fmlookup m k of None \<Rightarrow> False | Some v' \<Rightarrow> conforms s v')
                  | _ \<Rightarrow> False)
           | _ \<Rightarrow> False))"

definition VirtualMachineScaleSetAdditionalCapabilitiesSchema :: schema where
  "VirtualMachineScaleSetAdditionalCapabilitiesSchema =
     Schema TypeList False True 1
       [(''ultra_ssd_enabled'', Schema TypeBool False True 0 [] None (Some (CBool False)))]
       None None"

definition VirtualMachineScaleSetOSDiskSchema :: schema where
  "VirtualMachineScaleSetOSDiskSchema =
     Schema TypeList True False 1
       [(''caching'',
           Schema TypeString True False 0 []
             (Some (StringInSlice
                [CachingTypesNone, CachingTypesReadOnly, CachingTypesReadWrite])) None),
        (''storage_account_type'',
           Schema TypeString True False 0 []
             (Some (StringInSlice
                [StorageAccountTypesPremiumLRS, StorageAccountTypesStandardLRS,
                 StorageAccountTypesStandardSSDLRS])) None),
        (''diff_disk_settings'',
           Schema TypeList False True 1
             [(''option'',
                 Schema TypeString True False 0 [] (Some (StringInSlice [Local])) None)]
             None None),
        (''disk_size_gb'',
           Schema TypeInt False True 0 [] (Some (IntBetween 0 1023)) None),
        (''write_accelerator_enabled'',
           Schema TypeBool False True 0 [] None (Some (CBool False)))]
       None None"

definition VirtualMachineScaleSetUpgradePolicySchema :: schema where
  "VirtualMachineScaleSetUpgradePolicySchema =
     Schema TypeList True False 1
       [(''mode'',
           Schema TypeString True False 0 []
             (Some (StringInSlice [Automatic, Manual, Rolling])) None),
        (''automatic_os_upgrade_policy'',
           Schema TypeList False True 1
             [(''disable_automatic_rollback'', Schema TypeBool True False 0 [] None None),
              (''enable_automatic_os_upgrade'', Schema TypeBool True False 0 [] None None)]
             None None),
        (''rolling_upgrade_policy'',
           Schema TypeList False True 1
             [(''max_batch_instance_percent'', Schema TypeInt True False 0 [] None None),
              (''max_unhealthy_instance_percent'', Schema TypeInt True False 0 [] None None),
              (''max_unhealthy_upgraded_instance_percent'',
                 Schema TypeInt True False 0 [] None None),
              (''pause_time_between_batches'', Schema TypeString True False 0 [] None None)]
             None None)]
       None None"

text \<open>
  The four messages of \<^verbatim>\<open>ExpandVirtualMachineScaleSetUpgradePolicy\<close>, in the order in
  which the source tests for them.
\<close>

definition automatic_block_without_mode :: error where
  "automatic_block_without_mode = Errorf
     ''A `automatic_os_upgrade_policy` block cannot be specified when `mode` is not set to `Automatic`'' []"

definition rolling_block_without_mode :: error where
  "rolling_block_without_mode = Errorf
     ''A `rolling_upgrade_policy` block cannot be specified when `mode` is not set to `Rolling`'' []"

definition automatic_mode_without_block :: error where
  "automatic_mode_without_block = Errorf
     ''A `automatic_os_upgrade_policy` block must be specified when `mode` is set to `Automatic`'' []"

definition rolling_mode_without_block :: error where
  "rolling_mode_without_block = Errorf
     ''A `rolling_upgrade_policy` block must be specified when `mode` is set to `Rolling`'' []"

text \<open>Expanding a node and flattening the result, with the panic passed through.\<close>

definition osdisk_roundtrip :: "cfg list \<Rightarrow> string \<Rightarrow> panic + cfg list" where
  "osdisk_roundtrip input osType =
     pbind (ExpandVirtualMachineScaleSetOSDisk input osType)
       (\<lambda>disk. Inr (FlattenVirtualMachineScaleSetOSDisk disk))"

definition additional_capabilities_roundtrip :: "cfg list \<Rightarrow> panic + cfg list" where
  "additional_capabilities_roundtrip input =
     pbind (ExpandVirtualMachineScaleSetAdditionalCapabilities input)
       (\<lambda>capabilities. Inr (FlattenVirtualMachineScaleSetAdditionalCapabilities capabilities))"

text \<open>The value a one-node result holds at a key (\<open>None\<close> when there is no such node or key).\<close>

definition node_field :: "cfg list \<Rightarrow> string \<Rightarrow> cfg option" where
  "node_field xs key = (case xs of [CMap m] \<Rightarrow> fmlookup m key | _ \<Rightarrow> None)"

text \<open>Example nodes and objects, used to run the functions on concrete inputs.\<close>

definition example_os_disk_node :: "(string, cfg) fmap" where
  "example_os_disk_node = fmap_of_list
     [(''caching'', CStr CachingTypesReadWrite),
      (''storage_account_type'', CStr StorageAccountTypesStandardLRS),
      (''diff_disk_settings'', CList [CMap (fmap_of_list [(''option'', CStr Local)])]),
      (''disk_size_gb'', CInt 30),
      (''write_accelerator_enabled'', CBool False)]"

definition example_automatic_block :: cfg where
  "example_automatic_block = CMap (fmap_of_list
     [(''disable_automatic_rollback'', CBool False),
      (''enable_automatic_os_upgrade'', CBool True)])"

definition example_rolling_block :: cfg where
  "example_rolling_block = CMap (fmap_of_list
     [(''max_batch_instance_percent'', CInt 20),
      (''max_unhealthy_instance_percent'', CInt 20),
      (''max_unhealthy_upgraded_instance_percent'', CInt 5),
      (''pause_time_between_batches'', CStr ''PT0S'')])"

definition example_upgrade_policy_node :: "string \<Rightarrow> cfg list \<Rightarrow> cfg list \<Rightarrow> (string, cfg) fmap" where
  "example_upgrade_policy_node mode automatic rolling = fmap_of_list
     [(''mode'', CStr mode),
      (''automatic_os_upgrade_policy'', CList automatic),
      (''rolling_upgrade_policy'', CList rolling)]"

definition example_scale_set_id :: string where
  "example_scale_set_id =
     ''/subscriptions/s1/resourceGroups/rg1/providers/Microsoft.Compute/virtualMachineScaleSets/myScaleSet''"

text \<open>
  A stand-in for the path-parsing helper that knows two identifiers only: for the
  scale-set identifier it files the scale-set segment under \<^verbatim>\<open>Path\<close>, for the
  resource-group identifier it leaves \<^verbatim>\<open>Path\<close> empty, and it rejects every other input.
\<close>

definition example_resource_group_id :: string where
  "example_resource_group_id = ''/subscriptions/s1/resourceGroups/rg1''"

definition example_ParseAzureResourceID :: "string \<Rightarrow> ResourceID option \<times> error option" where
  "example_ParseAzureResourceID s =
     (if s = example_scale_set_id
      then (Some \<lparr>Path = fmap_of_list [(''virtualMachineScaleSets'', ''myScaleSet'')]\<rparr>, None)
      else if s = example_resource_group_id
      then (Some \<lparr>Path = fmempty\<rparr>, None)
      else (None, Some (Errorf ''Cannot parse Azure ID'' [])))"

section \<open>Auxiliary facts\<close>

lemma pbind_Inr [simp]: "pbind (Inr x) f = f x"
  by (simp add: pbind_def)

lemma pbind_Inl [simp]: "pbind (Inl p) f = Inl p"
  by (simp add: pbind_def)

lemma pbind_InrE:
  assumes "pbind m f = Inr y"
  obtains x where "m = Inr x" and "f x = Inr y"
  using assms by (cases m) (simp_all add: pbind_def)

lemma pbind_InlE:
  assumes "pbind m f = Inl p"
  obtains "m = Inl p" | x where "m = Inr x" and "f x = Inl p"
  using assms by (cases m) (simp_all add: pbind_def)

lemma index0_out_of_range [simp]: "index0 xs = Inl IndexOutOfRange \<longleftrightarrow> xs = []"
  by (cases xs) (simp_all add: index0_def)

lemma assertion_not_out_of_range [simp]:
  "as_map x \<noteq> Inl IndexOutOfRange" "as_string x \<noteq> Inl IndexOutOfRange"
  "as_bool x \<noteq> Inl IndexOutOfRange" "as_int x \<noteq> Inl IndexOutOfRange"
  "as_list x \<noteq> Inl IndexOutOfRange"
  by (cases x; simp add: as_map_def as_string_def as_bool_def as_int_def as_list_def)+

lemmas go_defs =
  map_index_def as_map_def as_string_def as_bool_def as_int_def as_list_def index0_def

lemmas sdk_literals =
  Automatic_def Manual_def Rolling_def CachingTypesNone_def CachingTypesReadOnly_def
  CachingTypesReadWrite_def StorageAccountTypesPremiumLRS_def
  StorageAccountTypesStandardLRS_def StorageAccountTypesStandardSSDLRS_def Local_def

lemma modes_distinct [simp]:
  "Automatic \<noteq> Rolling" "Rolling \<noteq> Automatic" "Automatic \<noteq> Manual"
  "Manual \<noteq> Automatic" "Manual \<noteq> Rolling" "Rolling \<noteq> Manual"
  by (simp_all add: Automatic_def Rolling_def Manual_def)

lemma length_le_one: "length xs \<le> Suc 0 \<longleftrightarrow> xs = [] \<or> (\<exists>x. xs = [x])"
  by (cases xs) auto

subsection \<open>Schema conformance, one value type at a time\<close>

lemma conforms_bool:
  "conforms (Schema TypeBool req opt mx elem vf dflt) v \<longleftrightarrow> (\<exists>b. v = CBool b)"
  by (cases v) simp_all

lemma conforms_int:
  "conforms (Schema TypeInt req opt mx elem vf dflt) v \<longleftrightarrow>
     (\<exists>n. v = CInt n) \<and> (\<forall>f. vf = Some f \<longrightarrow> f v)"
  by (cases v; cases vf) simp_all

lemma conforms_string:
  "conforms (Schema TypeString req opt mx elem vf dflt) v \<longleftrightarrow>
     (\<exists>s. v = CStr s) \<and> (\<forall>f. vf = Some f \<longrightarrow> f v)"
  by (cases v; cases vf) simp_all

lemma lookup_case_iff:
  "(case fmlookup m k of None \<Rightarrow> False | Some v \<Rightarrow> P v) \<longleftrightarrow>
     (\<exists>v. fmlookup m k = Some v \<and> P v)"
  by (cases "fmlookup m k") simp_all

lemma map_case_iff:
  "(case x of CMap m \<Rightarrow> P m | _ \<Rightarrow> False) \<longleftrightarrow> (\<exists>m. x = CMap m \<and> P m)"
  by (cases x) simp_all

lemma conforms_list:
  "conforms (Schema TypeList req opt mx elem vf dflt) v \<longleftrightarrow>
     (\<exists>xs. v = CList xs \<and> (req \<longrightarrow> xs \<noteq> []) \<and> (0 < mx \<longrightarrow> length xs \<le> mx) \<and>
        (\<forall>x \<in> set xs. \<exists>m. x = CMap m \<and> fmdom' m \<subseteq> fst ` set elem \<and>
           (\<forall>(k, s) \<in> set elem. \<exists>v'. fmlookup m k = Some v' \<and> conforms s v')))"
  by (cases v) (simp_all add: lookup_case_iff map_case_iff)

lemmas conforms_scalar = conforms_bool conforms_int conforms_string

lemmas conforms_iffs = conforms_scalar conforms_list

text \<open>What a conforming list block gives, with the condition on the key set left out.\<close>

lemma conforms_listD:
  assumes "conforms (Schema TypeList req opt mx elem vf dflt) v"
  shows "\<exists>xs. v = CList xs \<and> (req \<longrightarrow> xs \<noteq> []) \<and> (0 < mx \<longrightarrow> length xs \<le> mx) \<and>
        (\<forall>x \<in> set xs. \<exists>m. x = CMap m \<and>
           (\<forall>(k, s) \<in> set elem. \<exists>v'. fmlookup m k = Some v' \<and> conforms s v'))"
proof -
  let ?fields = "\<lambda>m. \<forall>(k, s) \<in> set elem. \<exists>v'. fmlookup m k = Some v' \<and> conforms s v'"
  from assms obtain xs where v: "v = CList xs"
    and len: "(req \<longrightarrow> xs \<noteq> []) \<and> (0 < mx \<longrightarrow> length xs \<le> mx)"
    and el: "\<forall>x \<in> set xs. \<exists>m. x = CMap m \<and> fmdom' m \<subseteq> fst ` set elem \<and> ?fields m"
    unfolding conforms_list by (elim exE conjE) simp
  have "\<exists>m. x = CMap m \<and> ?fields m" if "x \<in> set xs" for x
  proof -
    from el that have "\<exists>m. x = CMap m \<and> fmdom' m \<subseteq> fst ` set elem \<and> ?fields m"
      by (rule bspec)
    then obtain m where "x = CMap m" and "?fields m"
      by (elim exE conjE)
    then show ?thesis
      by (intro exI conjI)
  qed
  with v len show ?thesis
    by simp
qed

declare conforms.simps [simp del]

subsection \<open>The integer conversions on values that fit 32 bits\<close>

lemma sint_to_int32:
  assumes "- (2 ^ 31) \<le> sint n" and "sint n < 2 ^ 31"
  shows "sint (to_int32 n) = sint n"
proof -
  have "sint (ucast n :: 32 word) = signed_take_bit 31 (uint n)"
    by (simp add: signed_ucast_eq)
  also have "\<dots> = signed_take_bit 31 (signed_take_bit 63 (uint n))"
    by simp
  also have "\<dots> = signed_take_bit 31 (sint n)"
    by (simp add: sint_uint)
  also have "\<dots> = sint n"
    using assms by (simp add: signed_take_bit_int_eq_self)
  finally show ?thesis
    by (simp add: to_int32_def)
qed

lemma sint_to_int: "sint (to_int y) = sint y"
  unfolding to_int_def by (rule sint_up_scast) (simp add: is_up)

lemma to_int_to_int32:
  assumes "- (2 ^ 31) \<le> sint n" and "sint n < 2 ^ 31"
  shows "to_int (to_int32 n) = n"
proof -
  have "sint (to_int (to_int32 n)) = sint n"
    by (simp add: sint_to_int sint_to_int32 [OF assms])
  then show ?thesis
    by (rule signed_word_eqI)
qed

lemma zero_of_sint_zero: "sint n = 0 \<Longrightarrow> n = 0" for n :: go_int
proof -
  assume "sint n = 0"
  then have "sint n = sint (0 :: go_int)"
    by simp
  then show "n = 0"
    by (rule signed_word_eqI)
qed

lemma to_int32_nonzero:
  assumes "0 < sint n" and "sint n \<le> 1023"
  shows "to_int32 n \<noteq> 0"
proof
  assume "to_int32 n = 0"
  then have "sint (to_int32 n) = 0"
    by simp
  moreover have "sint (to_int32 n) = sint n"
    using assms by (intro sint_to_int32) simp_all
  ultimately show False
    using assms by simp
qed

subsection \<open>What a conforming OS-disk node holds\<close>

lemma fmap_single:
  assumes "fmdom' d \<subseteq> {k}" and "fmlookup d k = Some v"
  shows "d = fmupd k v fmempty"
proof (rule fmap_ext)
  fix x
  show "fmlookup d x = fmlookup (fmupd k v fmempty) x"
  proof (cases "x = k")
    case True
    with assms(2) show ?thesis
      by simp
  next
    case False
    with assms(1) have "x \<notin> fmdom' d"
      by auto
    then have "fmlookup d x = None"
      by (rule fmdom'_notD)
    with False show ?thesis
      by simp
  qed
qed

lemma conforms_OSDiskD:
  assumes "conforms VirtualMachineScaleSetOSDiskSchema (CList [CMap raw])"
  shows "\<exists>caching sat wae n dds.
     fmlookup raw ''caching'' = Some (CStr caching) \<and>
     fmlookup raw ''storage_account_type'' = Some (CStr sat) \<and>
     fmlookup raw ''write_accelerator_enabled'' = Some (CBool wae) \<and>
     fmlookup raw ''disk_size_gb'' = Some (CInt n) \<and> 0 \<le> sint n \<and> sint n \<le> 1023 \<and>
     fmlookup raw ''diff_disk_settings'' = Some (CList dds) \<and>
     (dds = [] \<or> dds = [CMap (fmupd ''option'' (CStr Local) fmempty)])"
  using assms unfolding VirtualMachineScaleSetOSDiskSchema_def
  by (auto simp add: conforms_iffs StringInSlice_def IntBetween_def length_le_one
      intro!: fmap_single)

subsection \<open>The example nodes conform\<close>

lemma example_os_disk_node_conforms:
  "conforms VirtualMachineScaleSetOSDiskSchema (CList [CMap example_os_disk_node])"
  unfolding VirtualMachineScaleSetOSDiskSchema_def example_os_disk_node_def
  by (auto simp add: conforms_iffs StringInSlice_def IntBetween_def)

lemma example_upgrade_policy_node_conforms:
  "conforms VirtualMachineScaleSetUpgradePolicySchema
     (CList [CMap (example_upgrade_policy_node Manual
                     [example_automatic_block] [example_rolling_block])])"
  "conforms VirtualMachineScaleSetUpgradePolicySchema
     (CList [CMap (example_upgrade_policy_node Automatic [example_automatic_block] [])])"
  by (auto simp add: VirtualMachineScaleSetUpgradePolicySchema_def
      example_upgrade_policy_node_def example_automatic_block_def example_rolling_block_def
      conforms_iffs StringInSlice_def)

section \<open>Upgrade policy: the cross-field rules\<close>

text \<open>
  Claim C1. On every schema-conforming one-element input,
  \<open>ExpandVirtualMachineScaleSetUpgradePolicy\<close> applies four guards in this order:
  (1) an automatic block with a mode other than \<open>Automatic\<close>, (2) a rolling block with a
  mode other than \<open>Rolling\<close>, (3) mode \<open>Automatic\<close> without an automatic block, (4) mode
  \<open>Rolling\<close> without a rolling block. The first guard that holds decides the error that
  is returned, every other input yields a policy, the call fails exactly when one of
  the four conditions holds, and the four messages are pairwise different.
\<close>

theorem expand_upgrade_policy_rules:
  assumes "conforms VirtualMachineScaleSetUpgradePolicySchema (CList [CMap raw])"
    and "fmlookup raw ''mode'' = Some (CStr mode)"
    and "fmlookup raw ''automatic_os_upgrade_policy'' = Some (CList automatic)"
    and "fmlookup raw ''rolling_upgrade_policy'' = Some (CList rolling)"
  shows "(if automatic \<noteq> [] \<and> mode \<noteq> Automatic
          then ExpandVirtualMachineScaleSetUpgradePolicy [CMap raw] =
                 Inr (None, Some automatic_block_without_mode)
          else if rolling \<noteq> [] \<and> mode \<noteq> Rolling
          then ExpandVirtualMachineScaleSetUpgradePolicy [CMap raw] =
                 Inr (None, Some rolling_block_without_mode)
          else if mode = Automatic \<and> automatic = []
          then ExpandVirtualMachineScaleSetUpgradePolicy [CMap raw] =
                 Inr (None, Some automatic_mode_without_block)
          else if mode = Rolling \<and> rolling = []
          then ExpandVirtualMachineScaleSetUpgradePolicy [CMap raw] =
                 Inr (None, Some rolling_mode_without_block)
          else \<exists>policy. ExpandVirtualMachineScaleSetUpgradePolicy [CMap raw] =
                 Inr (Some policy, None) \<and> Mode policy = mode)
       \<and> ((\<exists>e. ExpandVirtualMachineScaleSetUpgradePolicy [CMap raw] = Inr (None, Some e)) \<longleftrightarrow>
            (automatic \<noteq> [] \<and> mode \<noteq> Automatic) \<or> (rolling \<noteq> [] \<and> mode \<noteq> Rolling) \<or>
            (mode = Automatic \<and> automatic = []) \<or> (mode = Rolling \<and> rolling = []))
       \<and> distinct [automatic_block_without_mode, rolling_block_without_mode,
                    automatic_mode_without_block, rolling_mode_without_block]"
proof -
  have messages: "distinct [automatic_block_without_mode, rolling_block_without_mode,
                    automatic_mode_without_block, rolling_mode_without_block]"
    by (simp add: automatic_block_without_mode_def rolling_block_without_mode_def
        automatic_mode_without_block_def rolling_mode_without_block_def)
  have cascade:
    "if automatic \<noteq> [] \<and> mode \<noteq> Automatic
     then ExpandVirtualMachineScaleSetUpgradePolicy [CMap raw] =
            Inr (None, Some automatic_block_without_mode)
     else if rolling \<noteq> [] \<and> mode \<noteq> Rolling
     then ExpandVirtualMachineScaleSetUpgradePolicy [CMap raw] =
            Inr (None, Some rolling_block_without_mode)
     else if mode = Automatic \<and> automatic = []
     then ExpandVirtualMachineScaleSetUpgradePolicy [CMap raw] =
            Inr (None, Some automatic_mode_without_block)
     else if mode = Rolling \<and> rolling = []
     then ExpandVirtualMachineScaleSetUpgradePolicy [CMap raw] =
            Inr (None, Some rolling_mode_without_block)
     else \<exists>policy. ExpandVirtualMachineScaleSetUpgradePolicy [CMap raw] =
            Inr (Some policy, None) \<and> Mode policy = mode"
    using assms unfolding VirtualMachineScaleSetUpgradePolicySchema_def
    apply (clarsimp dest!: conforms_listD simp add: conforms_scalar StringInSlice_def length_le_one)
    apply (auto simp add: ExpandVirtualMachineScaleSetUpgradePolicy_def go_defs Let_def
        automatic_block_without_mode_def rolling_block_without_mode_def
        automatic_mode_without_block_def rolling_mode_without_block_def)
    done
  have fails:
    "(\<exists>e. ExpandVirtualMachineScaleSetUpgradePolicy [CMap raw] = Inr (None, Some e)) \<longleftrightarrow>
       (automatic \<noteq> [] \<and> mode \<noteq> Automatic) \<or> (rolling \<noteq> [] \<and> mode \<noteq> Rolling) \<or>
       (mode = Automatic \<and> automatic = []) \<or> (mode = Rolling \<and> rolling = [])"
    using cascade by (auto split: if_splits)
  from cascade fails messages show ?thesis
    by blast
qed

theorem expand_upgrade_policy_rules_witness:
  "conforms VirtualMachineScaleSetUpgradePolicySchema
     (CList [CMap (example_upgrade_policy_node Manual
                     [example_automatic_block] [example_rolling_block])])
   \<and> ExpandVirtualMachineScaleSetUpgradePolicy
       [CMap (example_upgrade_policy_node Manual
                [example_automatic_block] [example_rolling_block])] =
     Inr (None, Some automatic_block_without_mode)"
  using expand_upgrade_policy_rules
          [OF example_upgrade_policy_node_conforms(1),
           of Manual "[example_automatic_block]" "[example_rolling_block]"]
        example_upgrade_policy_node_conforms(1)
  by (simp add: example_upgrade_policy_node_def)

text \<open>The four inputs the specification lists as tests, run on the function itself.\<close>

lemma expand_upgrade_policy_examples:
  "\<exists>policy. ExpandVirtualMachineScaleSetUpgradePolicy
      [CMap (example_upgrade_policy_node Automatic [example_automatic_block] [])] =
      Inr (Some policy, None)"
  "ExpandVirtualMachineScaleSetUpgradePolicy
      [CMap (example_upgrade_policy_node Automatic [] [])] =
      Inr (None, Some automatic_mode_without_block)"
  "ExpandVirtualMachineScaleSetUpgradePolicy
      [CMap (example_upgrade_policy_node Rolling [example_automatic_block] [])] =
      Inr (None, Some automatic_block_without_mode)"
  "ExpandVirtualMachineScaleSetUpgradePolicy
      [CMap (example_upgrade_policy_node Manual [] [])] =
      Inr (Some \<lparr>Mode = Manual, AutomaticOSUpgradePolicy = None,
                  RollingUpgradePolicy = None\<rparr>, None)"
  by (simp_all add: ExpandVirtualMachineScaleSetUpgradePolicy_def go_defs Let_def
      example_upgrade_policy_node_def example_automatic_block_def
      automatic_mode_without_block_def automatic_block_without_mode_def)

section \<open>OS disk: expanding and flattening again\<close>

text \<open>
  Claim C2. For a schema-conforming OS-disk node, flattening the expanded disk gives
  back \<open>caching\<close>, \<open>storage_account_type\<close>, \<open>write_accelerator_enabled\<close> and
  \<open>disk_size_gb\<close> under their schema keys. The nested block is not given back under its
  schema key \<open>diff_disk_settings\<close>: the flattened node has no such key and carries the
  block under \<open>diff_data_settings\<close> instead, so the round trip the claim states does not
  hold on any conforming node.
\<close>

theorem osdisk_roundtrip_misses_diff_disk_settings:
  assumes "conforms VirtualMachineScaleSetOSDiskSchema (CList [CMap raw])"
  shows "\<exists>out. osdisk_roundtrip [CMap raw] osType = Inr [CMap out]
           \<and> fmlookup out ''caching'' = fmlookup raw ''caching''
           \<and> fmlookup out ''storage_account_type'' = fmlookup raw ''storage_account_type''
           \<and> fmlookup out ''write_accelerator_enabled'' =
               fmlookup raw ''write_accelerator_enabled''
           \<and> fmlookup out ''disk_size_gb'' = fmlookup raw ''disk_size_gb''
           \<and> fmlookup out ''diff_data_settings'' = fmlookup raw ''diff_disk_settings''
           \<and> fmlookup out ''diff_disk_settings'' = None
           \<and> fmlookup raw ''diff_disk_settings'' \<noteq> None"
proof -
  from conforms_OSDiskD [OF assms] obtain caching sat wae n dds where
    f: "fmlookup raw ''caching'' = Some (CStr caching)"
       "fmlookup raw ''storage_account_type'' = Some (CStr sat)"
       "fmlookup raw ''write_accelerator_enabled'' = Some (CBool wae)"
       "fmlookup raw ''disk_size_gb'' = Some (CInt n)"
       "fmlookup raw ''diff_disk_settings'' = Some (CList dds)"
    and n: "0 \<le> sint n" "sint n \<le> 1023"
    and dds: "dds = [] \<or> dds = [CMap (fmupd ''option'' (CStr Local) fmempty)]"
    by blast
  have size: "0 < sint n \<Longrightarrow> to_int (to_int32 n) = n" "\<not> 0 < sint n \<Longrightarrow> n = 0"
    using n by (auto simp add: to_int_to_int32 zero_of_sint_zero)
  have nz: "0 < sint n \<Longrightarrow> to_int32 n \<noteq> 0"
    using n by (simp add: to_int32_nonzero)
  from dds show ?thesis
  proof
    assume "dds = []"
    with f size nz show ?thesis
      by (simp add: osdisk_roundtrip_def ExpandVirtualMachineScaleSetOSDisk_def
          FlattenVirtualMachineScaleSetOSDisk_def go_defs Let_def)
  next
    assume "dds = [CMap (fmupd ''option'' (CStr Local) fmempty)]"
    with f size nz show ?thesis
      by (simp add: osdisk_roundtrip_def ExpandVirtualMachineScaleSetOSDisk_def
          FlattenVirtualMachineScaleSetOSDisk_def go_defs Let_def)
  qed
qed

theorem osdisk_roundtrip_misses_diff_disk_settings_witness:
  "conforms VirtualMachineScaleSetOSDiskSchema (CList [CMap example_os_disk_node])
   \<and> fmlookup example_os_disk_node ''diff_disk_settings'' =
       Some (CList [CMap (fmap_of_list [(''option'', CStr Local)])])
   \<and> osdisk_roundtrip [CMap example_os_disk_node] ''Linux'' =
       Inr [CMap (fmap_of_list
         [(''caching'', CStr CachingTypesReadWrite),
          (''disk_size_gb'', CInt 30),
          (''diff_data_settings'', CList [CMap (fmap_of_list [(''option'', CStr Local)])]),
          (''storage_account_type'', CStr StorageAccountTypesStandardLRS),
          (''write_accelerator_enabled'', CBool False)])]
   \<and> node_field (FlattenVirtualMachineScaleSetOSDisk
         (Some \<lparr>Caching = CachingTypesReadWrite,
                ManagedDisk = Some \<lparr>StorageAccountType = StorageAccountTypesStandardLRS\<rparr>,
                WriteAcceleratorEnabled = Some False,
                CreateOption = DiskCreateOptionTypesFromImage,
                OsType = ''Linux'',
                DiskSizeGB = Some 30,
                DiffDiskSettings = Some \<lparr>Option = Local\<rparr>\<rparr>))
       ''diff_disk_settings'' = None"
proof -
  note t = osdisk_roundtrip_misses_diff_disk_settings
             [OF example_os_disk_node_conforms, of "''Linux''"]
  have "osdisk_roundtrip [CMap example_os_disk_node] ''Linux'' =
       Inr [CMap (fmap_of_list
         [(''caching'', CStr CachingTypesReadWrite),
          (''disk_size_gb'', CInt 30),
          (''diff_data_settings'', CList [CMap (fmap_of_list [(''option'', CStr Local)])]),
          (''storage_account_type'', CStr StorageAccountTypesStandardLRS),
          (''write_accelerator_enabled'', CBool False)])]"
    by (simp add: osdisk_roundtrip_def ExpandVirtualMachineScaleSetOSDisk_def
        FlattenVirtualMachineScaleSetOSDisk_def go_defs Let_def example_os_disk_node_def
        to_int32_def to_int_def)
  moreover have "fmlookup example_os_disk_node ''diff_disk_settings'' =
       Some (CList [CMap (fmap_of_list [(''option'', CStr Local)])])"
    by (simp add: example_os_disk_node_def)
  moreover have "node_field (FlattenVirtualMachineScaleSetOSDisk
         (Some \<lparr>Caching = CachingTypesReadWrite,
                ManagedDisk = Some \<lparr>StorageAccountType = StorageAccountTypesStandardLRS\<rparr>,
                WriteAcceleratorEnabled = Some False,
                CreateOption = DiskCreateOptionTypesFromImage,
                OsType = ''Linux'',
                DiskSizeGB = Some 30,
                DiffDiskSettings = Some \<lparr>Option = Local\<rparr>\<rparr>))
       ''diff_disk_settings'' = None"
    by (simp add: FlattenVirtualMachineScaleSetOSDisk_def node_field_def)
  ultimately show ?thesis
    using t example_os_disk_node_conforms by blast
qed

section \<open>OS disk: the size field\<close>

text \<open>
  Claim C3. On a schema-conforming one-element OS-disk input,
  \<open>ExpandVirtualMachineScaleSetOSDisk\<close> returns a disk whose size field is set exactly
  when \<open>disk_size_gb\<close> is positive, and then holds that value; for \<open>disk_size_gb = 0\<close> the
  field is left out, and a size of 0 is never stored. The schema admits for
  \<open>disk_size_gb\<close> exactly the values from 0 to 1023.
\<close>

theorem expand_os_disk_size:
  assumes "conforms VirtualMachineScaleSetOSDiskSchema (CList [CMap raw])"
    and "fmlookup raw ''disk_size_gb'' = Some (CInt n)"
  shows "\<exists>disk. ExpandVirtualMachineScaleSetOSDisk [CMap raw] osType = Inr (Some disk)
           \<and> (DiskSizeGB disk \<noteq> None \<longleftrightarrow> 0 < sint n)
           \<and> (n = 0 \<longrightarrow> DiskSizeGB disk = None)
           \<and> (0 < sint n \<longrightarrow> (\<exists>size. DiskSizeGB disk = Some size \<and> sint size = sint n))
           \<and> DiskSizeGB disk \<noteq> Some 0
           \<and> 0 \<le> sint n \<and> sint n \<le> 1023
           \<and> (\<forall>v. conforms VirtualMachineScaleSetOSDiskSchema
                       (CList [CMap (fmupd ''disk_size_gb'' (CInt v) raw)])
                    \<longleftrightarrow> 0 \<le> sint v \<and> sint v \<le> 1023)"
proof -
  from conforms_OSDiskD [OF assms(1)] assms(2) obtain caching sat wae dds where
    f: "fmlookup raw ''caching'' = Some (CStr caching)"
       "fmlookup raw ''storage_account_type'' = Some (CStr sat)"
       "fmlookup raw ''write_accelerator_enabled'' = Some (CBool wae)"
       "fmlookup raw ''diff_disk_settings'' = Some (CList dds)"
    and r: "0 \<le> sint n" "sint n \<le> 1023"
    and dds: "dds = [] \<or> dds = [CMap (fmupd ''option'' (CStr Local) fmempty)]"
    by auto
  have s: "sint (to_int32 n) = sint n"
    using r by (intro sint_to_int32) simp_all
  have v: "conforms VirtualMachineScaleSetOSDiskSchema
             (CList [CMap (fmupd ''disk_size_gb'' (CInt v) raw)])
           \<longleftrightarrow> 0 \<le> sint v \<and> sint v \<le> 1023" for v
    using assms(1) unfolding VirtualMachineScaleSetOSDiskSchema_def
    by (simp add: conforms_iffs IntBetween_def StringInSlice_def)
  have e: "\<exists>disk. ExpandVirtualMachineScaleSetOSDisk [CMap raw] osType = Inr (Some disk)
           \<and> DiskSizeGB disk = (if 0 < sint n then Some (to_int32 n) else None)"
    using dds f assms(2)
    by (auto simp add: ExpandVirtualMachineScaleSetOSDisk_def go_defs Let_def)
  then obtain disk where
    d: "ExpandVirtualMachineScaleSetOSDisk [CMap raw] osType = Inr (Some disk)"
       "DiskSizeGB disk = (if 0 < sint n then Some (to_int32 n) else None)"
    by blast
  have "DiskSizeGB disk \<noteq> None \<longleftrightarrow> 0 < sint n"
    using d(2) by simp
  moreover have "n = 0 \<longrightarrow> DiskSizeGB disk = None"
    using d(2) by simp
  moreover have "0 < sint n \<longrightarrow> (\<exists>size. DiskSizeGB disk = Some size \<and> sint size = sint n)"
    using d(2) s by simp
  moreover have "DiskSizeGB disk \<noteq> Some 0"
    using d(2) r to_int32_nonzero [of n] by auto
  ultimately show ?thesis
    using d(1) r v by blast
qed

theorem expand_os_disk_size_witness:
  "conforms VirtualMachineScaleSetOSDiskSchema (CList [CMap example_os_disk_node])
   \<and> fmlookup example_os_disk_node ''disk_size_gb'' = Some (CInt 30)
   \<and> (\<exists>disk. ExpandVirtualMachineScaleSetOSDisk [CMap example_os_disk_node] ''Linux'' =
                Inr (Some disk) \<and> DiskSizeGB disk \<noteq> None \<and> DiskSizeGB disk \<noteq> Some 0)
   \<and> conforms VirtualMachineScaleSetOSDiskSchema
        (CList [CMap (fmupd ''disk_size_gb'' (CInt 1023) example_os_disk_node)])
   \<and> \<not> conforms VirtualMachineScaleSetOSDiskSchema
        (CList [CMap (fmupd ''disk_size_gb'' (CInt 1024) example_os_disk_node)])"
proof -
  have l: "fmlookup example_os_disk_node ''disk_size_gb'' = Some (CInt 30)"
    by (simp add: example_os_disk_node_def)
  from expand_os_disk_size [OF example_os_disk_node_conforms l, of "''Linux''"]
  obtain disk where
    d: "ExpandVirtualMachineScaleSetOSDisk [CMap example_os_disk_node] ''Linux'' = Inr (Some disk)"
       "DiskSizeGB disk \<noteq> None \<longleftrightarrow> 0 < sint (30 :: go_int)"
       "DiskSizeGB disk \<noteq> Some 0"
    and v: "\<forall>v. conforms VirtualMachineScaleSetOSDiskSchema
                  (CList [CMap (fmupd ''disk_size_gb'' (CInt v) example_os_disk_node)])
               \<longleftrightarrow> 0 \<le> sint v \<and> sint v \<le> 1023"
    by blast
  from d(2) have "DiskSizeGB disk \<noteq> None"
    by simp
  moreover from v have "conforms VirtualMachineScaleSetOSDiskSchema
        (CList [CMap (fmupd ''disk_size_gb'' (CInt 1023) example_os_disk_node)])"
    by simp
  moreover from v have "\<not> conforms VirtualMachineScaleSetOSDiskSchema
        (CList [CMap (fmupd ''disk_size_gb'' (CInt 1024) example_os_disk_node)])"
    by simp
  ultimately show ?thesis
    using d(1) d(3) l example_os_disk_node_conforms by blast
qed

text \<open>
  Outside the schema's range the conversion to 32 bits can lose the value: a
  \<open>disk_size_gb\<close> of \<open>2 ^ 32\<close> is positive, and is stored as size 0. The schema's
  range check is what keeps such a node away from the function.
\<close>

lemma expand_os_disk_size_truncation:
  "\<exists>disk. ExpandVirtualMachineScaleSetOSDisk
            [CMap (fmupd ''disk_size_gb'' (CInt 4294967296) example_os_disk_node)] ''Linux'' =
            Inr (Some disk)
          \<and> DiskSizeGB disk = Some 0"
  by (simp add: ExpandVirtualMachineScaleSetOSDisk_def go_defs Let_def
      example_os_disk_node_def to_int32_def)

section \<open>Source image reference: flattening\<close>

text \<open>
  Claim C4. \<open>FlattenVirtualMachineScaleSetSourceImageReference\<close> returns the empty list
  when the image reference is absent or its \<open>ID\<close> is set, whatever the other four fields
  hold, and in no other case; otherwise it returns one node with \<open>publisher\<close>, \<open>offer\<close>,
  \<open>sku\<close> and \<open>version\<close>, each the empty string when unset.
\<close>

theorem flatten_source_image_reference_cases:
  "FlattenVirtualMachineScaleSetSourceImageReference None = []
   \<and> (ID inp \<noteq> None \<longrightarrow> FlattenVirtualMachineScaleSetSourceImageReference (Some inp) = [])
   \<and> (ID inp = None \<longrightarrow>
        FlattenVirtualMachineScaleSetSourceImageReference (Some inp) =
          [CMap (fmap_of_list
             [(''publisher'', CStr (case Publisher inp of None \<Rightarrow> [] | Some s \<Rightarrow> s)),
              (''offer'', CStr (case Offer inp of None \<Rightarrow> [] | Some s \<Rightarrow> s)),
              (''sku'', CStr (case Sku inp of None \<Rightarrow> [] | Some s \<Rightarrow> s)),
              (''version'', CStr (case Version inp of None \<Rightarrow> [] | Some s \<Rightarrow> s))])])
   \<and> (FlattenVirtualMachineScaleSetSourceImageReference input = [] \<longleftrightarrow>
        input = None \<or> (\<exists>x. input = Some x \<and> ID x \<noteq> None))"
  by (cases input) (auto simp add: FlattenVirtualMachineScaleSetSourceImageReference_def)

theorem flatten_source_image_reference_cases_witness:
  "FlattenVirtualMachineScaleSetSourceImageReference
     (Some \<lparr>ID = Some ''/subscriptions/s1/resourceGroups/rg1/providers/Microsoft.Compute/images/img1'',
            Publisher = Some ''Canonical'', Offer = Some ''UbuntuServer'',
            Sku = Some ''16.04-LTS'', Version = Some ''latest''\<rparr>) = []
   \<and> FlattenVirtualMachineScaleSetSourceImageReference
     (Some \<lparr>ID = None, Publisher = Some ''Canonical'', Offer = None,
            Sku = Some ''16.04-LTS'', Version = Some ''latest''\<rparr>) =
       [CMap (fmap_of_list
          [(''publisher'', CStr ''Canonical''), (''offer'', CStr ''''),
           (''sku'', CStr ''16.04-LTS''), (''version'', CStr ''latest'')])]"
  using flatten_source_image_reference_cases
          [of "\<lparr>ID = Some ''/subscriptions/s1/resourceGroups/rg1/providers/Microsoft.Compute/images/img1'',
                 Publisher = Some ''Canonical'', Offer = Some ''UbuntuServer'',
                 Sku = Some ''16.04-LTS'', Version = Some ''latest''\<rparr>" None]
        flatten_source_image_reference_cases
          [of "\<lparr>ID = None, Publisher = Some ''Canonical'', Offer = None,
                 Sku = Some ''16.04-LTS'', Version = Some ''latest''\<rparr>" None]
  by simp

section \<open>Resource identifier: the scale-set segment\<close>

text \<open>
  Claim C5. Whatever the path-parsing helper is, \<open>ParseVirtualMachineScaleSetResourceID\<close>
  returns an identifier exactly when the helper returns one without an error and its
  \<open>Path\<close> holds a non-empty value at \<open>virtualMachineScaleSets\<close>; the \<open>Name\<close> of the result
  is that value. When the segment is missing or empty the error message contains the
  label \<open>virtualMachineScaleSets\<close>, and an error of the helper is wrapped together with
  the input.
\<close>

theorem parse_resource_id_name:
  "((\<exists>r. ParseVirtualMachineScaleSetResourceID ParseAzureResourceID input = Inr (Some r, None)) \<longleftrightarrow>
      (\<exists>rid v. ParseAzureResourceID input = (Some rid, None) \<and>
          fmlookup (Path rid) ''virtualMachineScaleSets'' = Some v \<and> v \<noteq> []))
   \<and> (\<forall>rid v. ParseAzureResourceID input = (Some rid, None) \<longrightarrow>
          fmlookup (Path rid) ''virtualMachineScaleSets'' = Some v \<longrightarrow> v \<noteq> [] \<longrightarrow>
          ParseVirtualMachineScaleSetResourceID ParseAzureResourceID input =
            Inr (Some \<lparr>Base = rid, Name = v\<rparr>, None))
   \<and> (\<forall>rid. ParseAzureResourceID input = (Some rid, None) \<longrightarrow>
          (fmlookup (Path rid) ''virtualMachineScaleSets'' = None \<or>
           fmlookup (Path rid) ''virtualMachineScaleSets'' = Some []) \<longrightarrow>
          (\<exists>msg. ParseVirtualMachineScaleSetResourceID ParseAzureResourceID input =
                   Inr (None, Some (Errorf msg [])) \<and>
                 sublist ''virtualMachineScaleSets'' msg))
   \<and> (\<forall>rid err. ParseAzureResourceID input = (rid, Some err) \<longrightarrow>
          ParseVirtualMachineScaleSetResourceID ParseAzureResourceID input =
            Inr (None, Some (Errorf ''[ERROR] Unable to parse Virtual Machine Scale Set ID %q: %+v''
                               [ArgString input, ArgError err])))"
proof -
  have s: "sublist ''virtualMachineScaleSets''
             ''ID was missing the `virtualMachineScaleSets` element''"
    unfolding sublist_def
    by (rule exI [of _ "''ID was missing the `''"], rule exI [of _ "''` element''"]) simp
  show ?thesis
    using s
    by (auto simp add: ParseVirtualMachineScaleSetResourceID_def path_index_def Let_def
        split: option.splits prod.splits)
qed

theorem parse_resource_id_name_witness:
  "ParseVirtualMachineScaleSetResourceID example_ParseAzureResourceID example_scale_set_id =
     Inr (Some \<lparr>Base = \<lparr>Path = fmap_of_list [(''virtualMachineScaleSets'', ''myScaleSet'')]\<rparr>,
                 Name = ''myScaleSet''\<rparr>, None)
   \<and> ParseVirtualMachineScaleSetResourceID example_ParseAzureResourceID
       example_resource_group_id =
     Inr (None, Some (Errorf ''ID was missing the `virtualMachineScaleSets` element'' []))
   \<and> (\<exists>e. ParseVirtualMachineScaleSetResourceID example_ParseAzureResourceID
             ''/subscriptions'' = Inr (None, Some e))"
  using parse_resource_id_name [of example_ParseAzureResourceID example_scale_set_id]
        parse_resource_id_name [of example_ParseAzureResourceID example_resource_group_id]
        parse_resource_id_name [of example_ParseAzureResourceID "''/subscriptions''"]
  by (simp add: example_ParseAzureResourceID_def example_scale_set_id_def
      example_resource_group_id_def ParseVirtualMachineScaleSetResourceID_def path_index_def)

section \<open>Upgrade policy: flattening\<close>

text \<open>
  Claim C6. \<open>FlattenVirtualMachineScaleSetUpgradePolicy\<close> returns the empty list for an
  absent policy, and otherwise one node holding the mode and two sub-lists: a sub-list
  is empty when its sub-policy is absent, and holds exactly one node, with unset scalars
  replaced by their defaults, when the sub-policy is present.
\<close>

theorem flatten_upgrade_policy_sub_lists:
  "FlattenVirtualMachineScaleSetUpgradePolicy None = []
   \<and> (\<exists>automaticOutput rollingOutput.
        FlattenVirtualMachineScaleSetUpgradePolicy (Some inp) =
          [CMap (fmap_of_list
             [(''mode'', CStr (Mode inp)),
              (''automatic_os_upgrade_policy'', CList automaticOutput),
              (''rolling_upgrade_policy'', CList rollingOutput)])]
        \<and> (AutomaticOSUpgradePolicy inp = None \<longrightarrow> automaticOutput = [])
        \<and> (\<forall>a. AutomaticOSUpgradePolicy inp = Some a \<longrightarrow>
              automaticOutput =
                [CMap (fmap_of_list
                   [(''disable_automatic_rollback'',
                       CBool (case DisableAutomaticRollback a of None \<Rightarrow> False | Some b \<Rightarrow> b)),
                    (''enable_automatic_os_upgrade'',
                       CBool (case EnableAutomaticOSUpgrade a of None \<Rightarrow> False | Some b \<Rightarrow> b))])])
        \<and> (RollingUpgradePolicy inp = None \<longrightarrow> rollingOutput = [])
        \<and> (\<forall>r. RollingUpgradePolicy inp = Some r \<longrightarrow>
              rollingOutput =
                [CMap (fmap_of_list
                   [(''max_batch_instance_percent'',
                       CInt (case MaxBatchInstancePercent r of None \<Rightarrow> 0 | Some n \<Rightarrow> to_int n)),
                    (''max_unhealthy_instance_percent'',
                       CInt (case MaxUnhealthyInstancePercent r of None \<Rightarrow> 0 | Some n \<Rightarrow> to_int n)),
                    (''max_unhealthy_upgraded_instance_percent'',
                       CInt (case MaxUnhealthyUpgradedInstancePercent r of
                               None \<Rightarrow> 0 | Some n \<Rightarrow> to_int n)),
                    (''pause_time_between_batches'',
                       CStr (case PauseTimeBetweenBatches r of None \<Rightarrow> [] | Some s \<Rightarrow> s))])]))"
  by (cases "AutomaticOSUpgradePolicy inp"; cases "RollingUpgradePolicy inp")
     (simp_all add: FlattenVirtualMachineScaleSetUpgradePolicy_def)

theorem flatten_upgrade_policy_sub_lists_witness:
  "FlattenVirtualMachineScaleSetUpgradePolicy
     (Some \<lparr>Mode = Automatic,
            AutomaticOSUpgradePolicy =
              Some \<lparr>DisableAutomaticRollback = None, EnableAutomaticOSUpgrade = Some True\<rparr>,
            RollingUpgradePolicy = None\<rparr>) =
     [CMap (fmap_of_list
        [(''mode'', CStr Automatic),
         (''automatic_os_upgrade_policy'',
            CList [CMap (fmap_of_list
                     [(''disable_automatic_rollback'', CBool False),
                      (''enable_automatic_os_upgrade'', CBool True)])]),
         (''rolling_upgrade_policy'', CList [])])]"
  using flatten_upgrade_policy_sub_lists
          [of "\<lparr>Mode = Automatic,
                 AutomaticOSUpgradePolicy =
                   Some \<lparr>DisableAutomaticRollback = None, EnableAutomaticOSUpgrade = Some True\<rparr>,
                 RollingUpgradePolicy = None\<rparr>"]
  by simp

section \<open>Flattening: absent scalars become defaults\<close>

text \<open>
  Claim C7. In the node a flatten function returns, a scalar whose pointer is nil in the
  provider object appears as \<open>False\<close> (booleans), \<open>0\<close> (integers) or the empty string
  (strings). This covers the additional capabilities, the OS disk, the source image
  reference (when it yields a node, that is when \<open>ID\<close> is unset) and both sub-policies
  of the upgrade policy.
\<close>

theorem flatten_absent_scalars_default:
  "(UltraSSDEnabled capabilities = None \<longrightarrow>
      node_field (FlattenVirtualMachineScaleSetAdditionalCapabilities (Some capabilities))
        ''ultra_ssd_enabled'' = Some (CBool False))
   \<and> (DiskSizeGB disk = None \<longrightarrow>
      node_field (FlattenVirtualMachineScaleSetOSDisk (Some disk)) ''disk_size_gb'' =
        Some (CInt 0))
   \<and> (WriteAcceleratorEnabled disk = None \<longrightarrow>
      node_field (FlattenVirtualMachineScaleSetOSDisk (Some disk))
        ''write_accelerator_enabled'' = Some (CBool False))
   \<and> (ManagedDisk disk = None \<longrightarrow>
      node_field (FlattenVirtualMachineScaleSetOSDisk (Some disk)) ''storage_account_type'' =
        Some (CStr []))
   \<and> (ID img = None \<and> Publisher img = None \<longrightarrow>
      node_field (FlattenVirtualMachineScaleSetSourceImageReference (Some img)) ''publisher'' =
        Some (CStr []))
   \<and> (ID img = None \<and> Offer img = None \<longrightarrow>
      node_field (FlattenVirtualMachineScaleSetSourceImageReference (Some img)) ''offer'' =
        Some (CStr []))
   \<and> (ID img = None \<and> Sku img = None \<longrightarrow>
      node_field (FlattenVirtualMachineScaleSetSourceImageReference (Some img)) ''sku'' =
        Some (CStr []))
   \<and> (ID img = None \<and> Version img = None \<longrightarrow>
      node_field (FlattenVirtualMachineScaleSetSourceImageReference (Some img)) ''version'' =
        Some (CStr []))
   \<and> (\<forall>a. AutomaticOSUpgradePolicy policy = Some a \<longrightarrow>
        (\<exists>sub. node_field (FlattenVirtualMachineScaleSetUpgradePolicy (Some policy))
                  ''automatic_os_upgrade_policy'' = Some (CList sub)
           \<and> (DisableAutomaticRollback a = None \<longrightarrow>
                 node_field sub ''disable_automatic_rollback'' = Some (CBool False))
           \<and> (EnableAutomaticOSUpgrade a = None \<longrightarrow>
                 node_field sub ''enable_automatic_os_upgrade'' = Some (CBool False))))
   \<and> (\<forall>r. RollingUpgradePolicy policy = Some r \<longrightarrow>
        (\<exists>sub. node_field (FlattenVirtualMachineScaleSetUpgradePolicy (Some policy))
                  ''rolling_upgrade_policy'' = Some (CList sub)
           \<and> (MaxBatchInstancePercent r = None \<longrightarrow>
                 node_field sub ''max_batch_instance_percent'' = Some (CInt 0))
           \<and> (MaxUnhealthyInstancePercent r = None \<longrightarrow>
                 node_field sub ''max_unhealthy_instance_percent'' = Some (CInt 0))
           \<and> (MaxUnhealthyUpgradedInstancePercent r = None \<longrightarrow>
                 node_field sub ''max_unhealthy_upgraded_instance_percent'' = Some (CInt 0))
           \<and> (PauseTimeBetweenBatches r = None \<longrightarrow>
                 node_field sub ''pause_time_between_batches'' = Some (CStr []))))"
proof -
  have capabilities_part:
    "UltraSSDEnabled capabilities = None \<longrightarrow>
       node_field (FlattenVirtualMachineScaleSetAdditionalCapabilities (Some capabilities))
         ''ultra_ssd_enabled'' = Some (CBool False)"
    by (simp add: FlattenVirtualMachineScaleSetAdditionalCapabilities_def node_field_def)
  have disk_part:
    "(DiskSizeGB disk = None \<longrightarrow>
        node_field (FlattenVirtualMachineScaleSetOSDisk (Some disk)) ''disk_size_gb'' =
          Some (CInt 0))
     \<and> (WriteAcceleratorEnabled disk = None \<longrightarrow>
        node_field (FlattenVirtualMachineScaleSetOSDisk (Some disk))
          ''write_accelerator_enabled'' = Some (CBool False))
     \<and> (ManagedDisk disk = None \<longrightarrow>
        node_field (FlattenVirtualMachineScaleSetOSDisk (Some disk)) ''storage_account_type'' =
          Some (CStr []))"
    by (simp add: FlattenVirtualMachineScaleSetOSDisk_def node_field_def)
  have image_part:
    "(ID img = None \<and> Publisher img = None \<longrightarrow>
        node_field (FlattenVirtualMachineScaleSetSourceImageReference (Some img)) ''publisher'' =
          Some (CStr []))
     \<and> (ID img = None \<and> Offer img = None \<longrightarrow>
        node_field (FlattenVirtualMachineScaleSetSourceImageReference (Some img)) ''offer'' =
          Some (CStr []))
     \<and> (ID img = None \<and> Sku img = None \<longrightarrow>
        node_field (FlattenVirtualMachineScaleSetSourceImageReference (Some img)) ''sku'' =
          Some (CStr []))
     \<and> (ID img = None \<and> Version img = None \<longrightarrow>
        node_field (FlattenVirtualMachineScaleSetSourceImageReference (Some img)) ''version'' =
          Some (CStr []))"
    by (simp add: FlattenVirtualMachineScaleSetSourceImageReference_def node_field_def)
  have automatic_part:
    "\<forall>a. AutomaticOSUpgradePolicy policy = Some a \<longrightarrow>
        (\<exists>sub. node_field (FlattenVirtualMachineScaleSetUpgradePolicy (Some policy))
                  ''automatic_os_upgrade_policy'' = Some (CList sub)
           \<and> (DisableAutomaticRollback a = None \<longrightarrow>
                 node_field sub ''disable_automatic_rollback'' = Some (CBool False))
           \<and> (EnableAutomaticOSUpgrade a = None \<longrightarrow>
                 node_field sub ''enable_automatic_os_upgrade'' = Some (CBool False)))"
    by (simp add: FlattenVirtualMachineScaleSetUpgradePolicy_def node_field_def)
  have rolling_part:
    "\<forall>r. RollingUpgradePolicy policy = Some r \<longrightarrow>
        (\<exists>sub. node_field (FlattenVirtualMachineScaleSetUpgradePolicy (Some policy))
                  ''rolling_upgrade_policy'' = Some (CList sub)
           \<and> (MaxBatchInstancePercent r = None \<longrightarrow>
                 node_field sub ''max_batch_instance_percent'' = Some (CInt 0))
           \<and> (MaxUnhealthyInstancePercent r = None \<longrightarrow>
                 node_field sub ''max_unhealthy_instance_percent'' = Some (CInt 0))
           \<and> (MaxUnhealthyUpgradedInstancePercent r = None \<longrightarrow>
                 node_field sub ''max_unhealthy_upgraded_instance_percent'' = Some (CInt 0))
           \<and> (PauseTimeBetweenBatches r = None \<longrightarrow>
                 node_field sub ''pause_time_between_batches'' = Some (CStr [])))"
    by (simp add: FlattenVirtualMachineScaleSetUpgradePolicy_def node_field_def)
  from capabilities_part disk_part image_part automatic_part rolling_part show ?thesis
    by blast
qed

theorem flatten_absent_scalars_default_witness:
  "node_field (FlattenVirtualMachineScaleSetAdditionalCapabilities
       (Some \<lparr>UltraSSDEnabled = None\<rparr>)) ''ultra_ssd_enabled'' = Some (CBool False)
   \<and> node_field (FlattenVirtualMachineScaleSetOSDisk
       (Some \<lparr>Caching = CachingTypesNone, ManagedDisk = None, WriteAcceleratorEnabled = None,
              CreateOption = DiskCreateOptionTypesFromImage, OsType = ''Linux'',
              DiskSizeGB = None, DiffDiskSettings = None\<rparr>)) ''disk_size_gb'' = Some (CInt 0)
   \<and> node_field (FlattenVirtualMachineScaleSetSourceImageReference
       (Some \<lparr>ID = None, Publisher = None, Offer = None, Sku = None, Version = None\<rparr>))
       ''publisher'' = Some (CStr [])
   \<and> node_field (FlattenVirtualMachineScaleSetUpgradePolicy
       (Some \<lparr>Mode = Rolling, AutomaticOSUpgradePolicy = None,
              RollingUpgradePolicy =
                Some \<lparr>MaxBatchInstancePercent = None, MaxUnhealthyInstancePercent = None,
                      MaxUnhealthyUpgradedInstancePercent = None,
                      PauseTimeBetweenBatches = None\<rparr>\<rparr>))
       ''rolling_upgrade_policy'' =
     Some (CList [CMap (fmap_of_list
       [(''max_batch_instance_percent'', CInt 0),
        (''max_unhealthy_instance_percent'', CInt 0),
        (''max_unhealthy_upgraded_instance_percent'', CInt 0),
        (''pause_time_between_batches'', CStr [])])])"
  using flatten_absent_scalars_default
          [of "\<lparr>UltraSSDEnabled = None\<rparr>"
              "\<lparr>Caching = CachingTypesNone, ManagedDisk = None, WriteAcceleratorEnabled = None,
                CreateOption = DiskCreateOptionTypesFromImage, OsType = ''Linux'',
                DiskSizeGB = None, DiffDiskSettings = None\<rparr>"
              "\<lparr>ID = None, Publisher = None, Offer = None, Sku = None, Version = None\<rparr>"
              "\<lparr>Mode = Rolling, AutomaticOSUpgradePolicy = None,
                RollingUpgradePolicy =
                  Some \<lparr>MaxBatchInstancePercent = None, MaxUnhealthyInstancePercent = None,
                        MaxUnhealthyUpgradedInstancePercent = None,
                        PauseTimeBetweenBatches = None\<rparr>\<rparr>"]
  by (simp add: FlattenVirtualMachineScaleSetUpgradePolicy_def node_field_def)

section \<open>Upgrade policy: what a returned policy satisfies\<close>

text \<open>
  Claim C8. On any input, whenever \<open>ExpandVirtualMachineScaleSetUpgradePolicy\<close> returns a
  policy without an error, the automatic sub-policy is present exactly when the mode is
  \<open>Automatic\<close> and the rolling sub-policy exactly when the mode is \<open>Rolling\<close>; and the
  returned pair holds a policy exactly when it holds no error.
\<close>

theorem expand_upgrade_policy_invariant:
  "(ExpandVirtualMachineScaleSetUpgradePolicy input = Inr (Some policy, None) \<longrightarrow>
      (AutomaticOSUpgradePolicy policy \<noteq> None \<longleftrightarrow> Mode policy = Automatic) \<and>
      (RollingUpgradePolicy policy \<noteq> None \<longleftrightarrow> Mode policy = Rolling))
   \<and> (ExpandVirtualMachineScaleSetUpgradePolicy input = Inr (p, e) \<longrightarrow>
        (p = None \<longleftrightarrow> e \<noteq> None))"
proof -
  have a: "(AutomaticOSUpgradePolicy policy \<noteq> None \<longleftrightarrow> Mode policy = Automatic) \<and>
      (RollingUpgradePolicy policy \<noteq> None \<longleftrightarrow> Mode policy = Rolling)"
    if "ExpandVirtualMachineScaleSetUpgradePolicy input = Inr (Some policy, None)"
    using that unfolding ExpandVirtualMachineScaleSetUpgradePolicy_def Let_def
    by (elim pbind_InrE; clarsimp split: if_splits;
        (elim pbind_InrE)?; (clarsimp split: if_splits)?;
        (elim pbind_InrE)?; (clarsimp split: if_splits)?)
  have b: "p = None \<longleftrightarrow> e \<noteq> None"
    if "ExpandVirtualMachineScaleSetUpgradePolicy input = Inr (p, e)"
    using that unfolding ExpandVirtualMachineScaleSetUpgradePolicy_def Let_def
    by (elim pbind_InrE; clarsimp split: if_splits;
        (elim pbind_InrE)?; (clarsimp split: if_splits)?;
        (elim pbind_InrE)?; (clarsimp split: if_splits)?)
  from a b show ?thesis
    by blast
qed

theorem expand_upgrade_policy_invariant_witness:
  "ExpandVirtualMachineScaleSetUpgradePolicy
     [CMap (example_upgrade_policy_node Automatic [example_automatic_block] [])] =
     Inr (Some \<lparr>Mode = Automatic,
                 AutomaticOSUpgradePolicy =
                   Some \<lparr>DisableAutomaticRollback = Some False,
                         EnableAutomaticOSUpgrade = Some True\<rparr>,
                 RollingUpgradePolicy = None\<rparr>, None)
   \<and> ExpandVirtualMachineScaleSetUpgradePolicy
     [CMap (example_upgrade_policy_node Rolling [] [])] =
     Inr (None, Some rolling_mode_without_block)"
  using expand_upgrade_policy_invariant
          [of "[CMap (example_upgrade_policy_node Automatic [example_automatic_block] [])]"
              "\<lparr>Mode = Automatic,
                 AutomaticOSUpgradePolicy =
                   Some \<lparr>DisableAutomaticRollback = Some False,
                         EnableAutomaticOSUpgrade = Some True\<rparr>,
                 RollingUpgradePolicy = None\<rparr>" None None]
  by (simp add: ExpandVirtualMachineScaleSetUpgradePolicy_def go_defs Let_def
      example_upgrade_policy_node_def example_automatic_block_def
      rolling_mode_without_block_def)

section \<open>Reading the first element\<close>

text \<open>
  Claim C9. \<open>ExpandVirtualMachineScaleSetOSDisk\<close> and
  \<open>ExpandVirtualMachineScaleSetUpgradePolicy\<close> panic with an index out of range on the
  empty list, returning neither a value nor an error; on a non-empty list the first
  element is read in bounds and neither function ever panics with an index out of range.
\<close>

theorem expand_first_element_access:
  "ExpandVirtualMachineScaleSetOSDisk [] osType = Inl IndexOutOfRange
   \<and> ExpandVirtualMachineScaleSetUpgradePolicy [] = Inl IndexOutOfRange
   \<and> (input \<noteq> [] \<longrightarrow>
        index0 input = Inr (hd input)
        \<and> ExpandVirtualMachineScaleSetOSDisk input osType \<noteq> Inl IndexOutOfRange
        \<and> ExpandVirtualMachineScaleSetUpgradePolicy input \<noteq> Inl IndexOutOfRange)"
proof -
  have a: "ExpandVirtualMachineScaleSetOSDisk [] osType = Inl IndexOutOfRange"
    by (simp add: ExpandVirtualMachineScaleSetOSDisk_def index0_def)
  have b: "ExpandVirtualMachineScaleSetUpgradePolicy [] = Inl IndexOutOfRange"
    by (simp add: ExpandVirtualMachineScaleSetUpgradePolicy_def index0_def)
  have c: "index0 input = Inr (hd input)" if "input \<noteq> []"
    using that by (cases input) (simp_all add: index0_def)
  have d: "input = []" if "ExpandVirtualMachineScaleSetOSDisk input osType = Inl IndexOutOfRange"
    using that unfolding ExpandVirtualMachineScaleSetOSDisk_def Let_def
    by (elim pbind_InlE; (simp split: if_splits)?; (elim pbind_InlE)?; (simp split: if_splits)?)
  have e: "input = []" if "ExpandVirtualMachineScaleSetUpgradePolicy input = Inl IndexOutOfRange"
    using that unfolding ExpandVirtualMachineScaleSetUpgradePolicy_def Let_def
    by (elim pbind_InlE; (simp split: if_splits)?; (elim pbind_InlE)?; (simp split: if_splits)?;
        (elim pbind_InlE)?; (simp split: if_splits)?)
  from a b c d e show ?thesis
    by blast
qed

theorem expand_first_element_access_witness:
  "[CMap example_os_disk_node] \<noteq> []
   \<and> index0 [CMap example_os_disk_node] = Inr (CMap example_os_disk_node)
   \<and> ExpandVirtualMachineScaleSetOSDisk [CMap example_os_disk_node] ''Linux'' \<noteq>
       Inl IndexOutOfRange
   \<and> ExpandVirtualMachineScaleSetUpgradePolicy [CMap example_os_disk_node] =
       Inl InterfaceConversion"
  using expand_first_element_access [of "''Linux''" "[CMap example_os_disk_node]"]
  by (simp add: ExpandVirtualMachineScaleSetUpgradePolicy_def go_defs example_os_disk_node_def)

section \<open>Additional capabilities: the empty configuration\<close>

text \<open>
  Claim C10. Whenever \<open>ExpandVirtualMachineScaleSetAdditionalCapabilities\<close> returns, the
  object it returns is present; for the empty list it is the object with the flag unset,
  and flattening that object gives one node with \<open>ultra_ssd_enabled\<close> false, which is
  not the empty list.
\<close>

theorem additional_capabilities_empty_roundtrip:
  "(\<forall>input r. ExpandVirtualMachineScaleSetAdditionalCapabilities input = Inr r \<longrightarrow> r \<noteq> None)
   \<and> ExpandVirtualMachineScaleSetAdditionalCapabilities [] =
       Inr (Some \<lparr>UltraSSDEnabled = None\<rparr>)
   \<and> additional_capabilities_roundtrip [] =
       Inr [CMap (fmap_of_list [(''ultra_ssd_enabled'', CBool False)])]
   \<and> additional_capabilities_roundtrip [] \<noteq> Inr []"
proof -
  have "r \<noteq> None" if "ExpandVirtualMachineScaleSetAdditionalCapabilities input = Inr r"
    for input r
    using that unfolding ExpandVirtualMachineScaleSetAdditionalCapabilities_def Let_def
    by (auto split: if_splits elim!: pbind_InrE)
  moreover have "ExpandVirtualMachineScaleSetAdditionalCapabilities [] =
       Inr (Some \<lparr>UltraSSDEnabled = None\<rparr>)"
    by (simp add: ExpandVirtualMachineScaleSetAdditionalCapabilities_def)
  moreover have "additional_capabilities_roundtrip [] =
       Inr [CMap (fmap_of_list [(''ultra_ssd_enabled'', CBool False)])]"
    by (simp add: additional_capabilities_roundtrip_def
        ExpandVirtualMachineScaleSetAdditionalCapabilities_def
        FlattenVirtualMachineScaleSetAdditionalCapabilities_def)
  ultimately show ?thesis
    by simp
qed

theorem additional_capabilities_empty_roundtrip_witness:
  "ExpandVirtualMachineScaleSetAdditionalCapabilities
     [CMap (fmap_of_list [(''ultra_ssd_enabled'', CBool True)])] =
     Inr (Some \<lparr>UltraSSDEnabled = Some True\<rparr>)
   \<and> FlattenVirtualMachineScaleSetAdditionalCapabilities (Some \<lparr>UltraSSDEnabled = None\<rparr>) =
     [CMap (fmap_of_list [(''ultra_ssd_enabled'', CBool False)])]"
  using additional_capabilities_empty_roundtrip
  by (simp add: ExpandVirtualMachineScaleSetAdditionalCapabilities_def go_defs
      FlattenVirtualMachineScaleSetAdditionalCapabilities_def)

end
